theory Spec2Isabelle
  imports Complex_Main
begin

section \<open>JavaScript values\<close>

text \<open>
  The snippets are TypeScript; at run time the types are erased and every value is a
  JavaScript value. In these values, as for \<open>divide\<close>, a \<open>number\<close> is a real number;
  a string is the list of its code units, a function value an identifier, and an object
  the list of its properties as a lookup sees them. The classes and \<open>withRetry\<close>, where
  \<open>NaN\<close>, the infinities and rounding decide what happens, use the numbers of the next
  section.
\<close>

datatype js_value =
    JUndefined
  | JNull
  | JBool bool
  | JNum real
  | JBigInt int
  | JStr string
  | JSymbol string
  | JFunc nat
  | JObj "(string \<times> js_value) list"

type_synonym js_object = "(string \<times> js_value) list"

text \<open>The \<open>typeof\<close> operator.\<close>

fun typeof_js :: "js_value \<Rightarrow> string" where
  "typeof_js JUndefined = ''undefined''"
| "typeof_js JNull = ''object''"
| "typeof_js (JBool b) = ''boolean''"
| "typeof_js (JNum x) = ''number''"
| "typeof_js (JBigInt n) = ''bigint''"
| "typeof_js (JStr s) = ''string''"
| "typeof_js (JSymbol s) = ''symbol''"
| "typeof_js (JFunc f) = ''function''"
| "typeof_js (JObj ps) = ''object''"

text \<open>\<open>!v\<close> is true exactly for the falsy values.\<close>

fun truthy :: "js_value \<Rightarrow> bool" where
  "truthy JUndefined = False"
| "truthy JNull = False"
| "truthy (JBool b) = b"
| "truthy (JNum x) = (x \<noteq> 0)"
| "truthy (JBigInt n) = (n \<noteq> 0)"
| "truthy (JStr s) = (s \<noteq> [])"
| "truthy (JSymbol s) = True"
| "truthy (JFunc f) = True"
| "truthy (JObj ps) = True"

text \<open>Reading a property of an object: a missing property reads as \<open>undefined\<close>.\<close>

definition get_prop :: "js_object \<Rightarrow> string \<Rightarrow> js_value" where
  "get_prop obj k = (case map_of obj k of None \<Rightarrow> JUndefined | Some v \<Rightarrow> v)"

section \<open>Numbers: doubles\<close>

text \<open>
  A \<open>number\<close> of the runtime is a double: \<open>NaN\<close>, an infinity or a finite value. The two
  zeros are not told apart (no operation below divides by a number that can be zero).
  A comparison with \<open>NaN\<close> on either side is false.
\<close>

datatype js_number = NaN | NegInf | Fin real | PosInf

fun js_lt :: "js_number \<Rightarrow> js_number \<Rightarrow> bool" where
  "js_lt (Fin a) (Fin b) = (a < b)"
| "js_lt (Fin a) PosInf = True"
| "js_lt NegInf (Fin b) = True"
| "js_lt NegInf PosInf = True"
| "js_lt x y = False"

fun js_le :: "js_number \<Rightarrow> js_number \<Rightarrow> bool" where
  "js_le (Fin a) (Fin b) = (a \<le> b)"
| "js_le (Fin a) PosInf = True"
| "js_le NegInf (Fin b) = True"
| "js_le NegInf PosInf = True"
| "js_le NegInf NegInf = True"
| "js_le PosInf PosInf = True"
| "js_le x y = False"

definition js_ge :: "js_number \<Rightarrow> js_number \<Rightarrow> bool" where
  "js_ge x y = js_le y x"

text \<open>
  The arithmetic of the doubles rounds, and \<open>Math.pow\<close> is only specified up to the
  implementation, so the operations are parameters: a \<open>runtime\<close> gives \<open>+\<close>, \<open>-\<close>, \<open>*\<close>, \<open>/\<close>
  and \<open>Math.pow\<close> (whose exponent below is always a loop counter). Nothing is assumed of
  them unless a theorem says so.
\<close>

record runtime =
  js_add :: "js_number \<Rightarrow> js_number \<Rightarrow> js_number"
  js_sub :: "js_number \<Rightarrow> js_number \<Rightarrow> js_number"
  js_mul :: "js_number \<Rightarrow> js_number \<Rightarrow> js_number"
  js_div :: "js_number \<Rightarrow> js_number \<Rightarrow> js_number"
  js_pow :: "js_number \<Rightarrow> nat \<Rightarrow> js_number"

text \<open>
  For examples, a runtime that computes without rounding: on finite numbers the exact
  result, on \<open>NaN\<close> and the infinities what the doubles give. Where the exact result of
  \<open>+\<close>, \<open>-\<close>, \<open>*\<close> or \<open>/\<close> on doubles is a double, the doubles compute the same.
\<close>

fun js_sign :: "js_number \<Rightarrow> int" where
  "js_sign (Fin a) = (if 0 < a then 1 else if a < 0 then - 1 else 0)"
| "js_sign PosInf = 1"
| "js_sign NegInf = - 1"
| "js_sign NaN = 0"

definition signed_infinity :: "int \<Rightarrow> js_number" where
  "signed_infinity s = (if 0 < s then PosInf else if s < 0 then NegInf else NaN)"

fun exact_add :: "js_number \<Rightarrow> js_number \<Rightarrow> js_number" where
  "exact_add (Fin a) (Fin b) = Fin (a + b)"
| "exact_add NaN y = NaN"
| "exact_add x NaN = NaN"
| "exact_add PosInf NegInf = NaN"
| "exact_add NegInf PosInf = NaN"
| "exact_add PosInf y = PosInf"
| "exact_add x PosInf = PosInf"
| "exact_add NegInf y = NegInf"
| "exact_add x NegInf = NegInf"

fun exact_neg :: "js_number \<Rightarrow> js_number" where
  "exact_neg (Fin a) = Fin (- a)"
| "exact_neg PosInf = NegInf"
| "exact_neg NegInf = PosInf"
| "exact_neg NaN = NaN"

definition exact_sub :: "js_number \<Rightarrow> js_number \<Rightarrow> js_number" where
  "exact_sub x y = exact_add x (exact_neg y)"

fun exact_mul :: "js_number \<Rightarrow> js_number \<Rightarrow> js_number" where
  "exact_mul (Fin a) (Fin b) = Fin (a * b)"
| "exact_mul x y = signed_infinity (js_sign x * js_sign y)"

fun exact_div :: "js_number \<Rightarrow> js_number \<Rightarrow> js_number" where
  "exact_div (Fin a) (Fin b) = (if b = 0 then signed_infinity (js_sign (Fin a)) else Fin (a / b))"
| "exact_div (Fin a) PosInf = Fin 0"
| "exact_div (Fin a) NegInf = Fin 0"
| "exact_div PosInf (Fin b) = (if b < 0 then NegInf else PosInf)"
| "exact_div NegInf (Fin b) = (if b < 0 then PosInf else NegInf)"
| "exact_div x y = NaN"

fun exact_pow :: "js_number \<Rightarrow> nat \<Rightarrow> js_number" where
  "exact_pow x 0 = Fin 1"
| "exact_pow (Fin a) n = Fin (a ^ n)"
| "exact_pow NaN n = NaN"
| "exact_pow PosInf n = PosInf"
| "exact_pow NegInf n = (if odd n then NegInf else PosInf)"

definition exact_runtime :: runtime where
  "exact_runtime =
     \<lparr>js_add = exact_add, js_sub = exact_sub, js_mul = exact_mul, js_div = exact_div,
      js_pow = exact_pow\<rparr>"

section \<open>Thrown errors\<close>

text \<open>
  What a \<open>throw\<close> can carry: an instance of \<open>Error\<close> or of one of the subclasses that
  \<^verbatim>\<open>errorsHandling.ts\<close> declares (told apart by \<open>instanceof\<close>), a \<open>TypeError\<close> of the
  runtime, or any other value. An \<open>Error\<close> carries its message; a \<open>DatabaseError\<close> also its
  \<open>code\<close>; an \<open>ApiError\<close> its \<open>status\<close>, \<open>code\<close>, message and \<open>details\<close>.
\<close>

datatype js_error =
    Error string
  | TypeError string
  | ValidationError string
  | DatabaseError string js_number
  | ApiError js_number js_value string js_value
  | Thrown js_value

text \<open>
  \<open>instanceof Error\<close>, and the \<open>message\<close> property of an instance of \<open>Error\<close>. The functions
  below read \<open>message\<close> from instances of \<open>Error\<close> only; for any other thrown value the
  property is not followed into the value.
\<close>

fun is_Error :: "js_error \<Rightarrow> bool" where
  "is_Error (Thrown v) = False"
| "is_Error e = True"

fun error_message :: "js_error \<Rightarrow> js_value" where
  "error_message (Error m) = JStr m"
| "error_message (TypeError m) = JStr m"
| "error_message (ValidationError m) = JStr m"
| "error_message (DatabaseError m c) = JStr m"
| "error_message (ApiError st c m d) = JStr m"
| "error_message (Thrown v) = JUndefined"

section \<open>Result and Either: division\<close>

text \<open>
  \<open>Result<T, E>\<close> is \<open>{success: true, value}\<close> or \<open>{success: false, error}\<close>. The function
  \<open>divide\<close> of the source is \<open>divide_result\<close> here: \<open>divide\<close> is the division of HOL.
\<close>

datatype ('t, 'e) Result = Success 't | Failure 'e

definition divide_result :: "real \<Rightarrow> real \<Rightarrow> (real, js_error) Result" where
  "divide_result a b =
     (if b = 0 then Failure (Error ''Division by zero'')
      else Success (a / b))"

datatype ('l, 'r) Either = Left 'l | Right 'r

definition left :: "'l \<Rightarrow> ('l, 'r) Either" where
  "left error = Left error"

definition right :: "'r \<Rightarrow> ('l, 'r) Either" where
  "right v = Right v"

definition divideEither :: "real \<Rightarrow> real \<Rightarrow> (string, real) Either" where
  "divideEither a b =
     (if b = 0 then left ''Division by zero''
      else right (a / b))"

section \<open>Assertion function\<close>

definition assertIsString :: "js_value \<Rightarrow> string \<Rightarrow> js_error + unit" where
  "assertIsString v msg =
     (if typeof_js v \<noteq> ''string''
      then Inl (Error (msg @ '' (expected string, got '' @ typeof_js v @ '')''))
      else Inr ())"

text \<open>
  \<open>processInput\<close> calls the built-in \<open>String.prototype.toUpperCase\<close>, which is a
  parameter here. A method call on a value that has no such method raises a
  \<open>TypeError\<close>.
\<close>

definition processInput :: "(string \<Rightarrow> string) \<Rightarrow> js_value \<Rightarrow> js_error + string" where
  "processInput toUpperCase input =
     (case assertIsString input ''Input must be a string'' of
        Inl e \<Rightarrow> Inl e
      | Inr u \<Rightarrow>
          (case input of
             JStr s \<Rightarrow> Inr (toUpperCase s)
           | _ \<Rightarrow> Inl (TypeError ''input.toUpperCase is not a function'')))"

section \<open>Type guard\<close>

definition isFish :: "js_object \<Rightarrow> bool" where
  "isFish pet = (get_prop pet ''swim'' \<noteq> JUndefined)"

text \<open>Calling a method of the pet: a property that is not a function cannot be called.\<close>

definition call_method :: "js_object \<Rightarrow> string \<Rightarrow> js_error + nat" where
  "call_method pet k =
     (case get_prop pet k of
        JFunc f \<Rightarrow> Inr f
      | _ \<Rightarrow> Inl (TypeError (''pet.'' @ k @ '' is not a function'')))"

definition careForPet :: "js_object \<Rightarrow> js_error + nat" where
  "careForPet pet = (if isFish pet then call_method pet ''swim'' else call_method pet ''fly'')"

text \<open>The two static shapes of the union, as the interfaces declare them.\<close>

definition is_method :: "js_value \<Rightarrow> bool" where
  "is_method v = (case v of JFunc f \<Rightarrow> True | _ \<Rightarrow> False)"

definition Fish_shape :: "js_object \<Rightarrow> bool" where
  "Fish_shape pet = (is_method (get_prop pet ''swim'') \<and> is_method (get_prop pet ''layEggs''))"

definition Bird_shape :: "js_object \<Rightarrow> bool" where
  "Bird_shape pet =
     (is_method (get_prop pet ''fly'') \<and> is_method (get_prop pet ''layEggs'')
      \<and> map_of pet ''swim'' = None)"

section \<open>Form validation\<close>

record FieldError =
  field :: string
  message :: string
  code :: string

datatype 't ValidationResult = Valid 't | Invalid "FieldError list"

text \<open>
  The validated data is built from the properties as they are read
  (\<open>form as any\<close>), so its fields hold JavaScript values.
\<close>

record UserForm =
  username :: js_value
  email :: js_value
  age :: js_value

text \<open>The properties of a value that passed the \<open>typeof form === "object"\<close> test.\<close>

fun props_of :: "js_value \<Rightarrow> js_object" where
  "props_of (JObj ps) = ps"
| "props_of v = []"

text \<open>\<open>s.length\<close>, \<open>s.includes("@")\<close> and \<open>x < 18\<close> on values already known to be a string or a number.\<close>

fun str_length :: "js_value \<Rightarrow> nat" where
  "str_length (JStr s) = length s"
| "str_length v = 0"

fun str_includes :: "js_value \<Rightarrow> char \<Rightarrow> bool" where
  "str_includes (JStr s) c = (c \<in> set s)"
| "str_includes v c = False"

fun num_less :: "js_value \<Rightarrow> real \<Rightarrow> bool" where
  "num_less (JNum x) y = (x < y)"
| "num_less v y = False"

definition validateUserForm :: "js_value \<Rightarrow> UserForm ValidationResult" where
  "validateUserForm form =
     (if typeof_js form \<noteq> ''object'' \<or> form = JNull then
        Invalid ([] @ [\<lparr>field = ''_form'', message = ''Form data must be an object'',
                         code = ''INVALID_FORM''\<rparr>])
      else
        let data = props_of form;
            errors = [];
            errors =
              (if \<not> truthy (get_prop data ''username'')
                  \<or> typeof_js (get_prop data ''username'') \<noteq> ''string''
               then errors @ [\<lparr>field = ''username'',
                       message = ''Username is required and must be a string'',
                       code = ''INVALID_USERNAME''\<rparr>]
               else if str_length (get_prop data ''username'') < 3
               then errors @ [\<lparr>field = ''username'',
                       message = ''Username must be at least 3 characters'',
                       code = ''USERNAME_TOO_SHORT''\<rparr>]
               else errors);
            errors =
              (if \<not> truthy (get_prop data ''email'')
                  \<or> typeof_js (get_prop data ''email'') \<noteq> ''string''
               then errors @ [\<lparr>field = ''email'',
                       message = ''Email is required and must be a string'',
                       code = ''INVALID_EMAIL''\<rparr>]
               else if \<not> str_includes (get_prop data ''email'') CHR ''@''
               then errors @ [\<lparr>field = ''email'',
                       message = ''Email must be a valid email address'',
                       code = ''INVALID_EMAIL_FORMAT''\<rparr>]
               else errors);
            errors =
              (if get_prop data ''age'' = JUndefined
                  \<or> typeof_js (get_prop data ''age'') \<noteq> ''number''
               then errors @ [\<lparr>field = ''age'',
                       message = ''Age is required and must be a number'',
                       code = ''INVALID_AGE''\<rparr>]
               else if num_less (get_prop data ''age'') 18
               then errors @ [\<lparr>field = ''age'',
                       message = ''You must be at least 18 years old'',
                       code = ''AGE_TOO_YOUNG''\<rparr>]
               else errors)
        in if length errors > 0 then Invalid errors
           else Valid \<lparr>username = get_prop data ''username'',
                         email = get_prop data ''email'',
                         age = get_prop data ''age''\<rparr>)"

section \<open>Classes with state\<close>

text \<open>
  An object is the record of its fields; a method that assigns to a field returns the
  updated object, and a method that throws returns the error (the object is then as it
  was before the call). Methods that compute take the runtime.
\<close>

record BankAccount =
  accountNumber :: string
  balance :: js_number
  ownerName :: string

definition BankAccount_new :: "string \<Rightarrow> string \<Rightarrow> js_number \<Rightarrow> BankAccount" where
  "BankAccount_new number owner initialBalance =
     \<lparr>accountNumber = number, balance = initialBalance, ownerName = owner\<rparr>"

definition getBalance :: "BankAccount \<Rightarrow> js_number" where
  "getBalance a = balance a"

definition deposit :: "runtime \<Rightarrow> BankAccount \<Rightarrow> js_number \<Rightarrow> js_error + BankAccount" where
  "deposit rt a amount =
     (if js_le amount (Fin 0) then Inl (Error ''Deposit amount must be positive'')
      else Inr (a\<lparr>balance := js_add rt (balance a) amount\<rparr>))"

definition updateOwnerName :: "BankAccount \<Rightarrow> string \<Rightarrow> BankAccount" where
  "updateOwnerName a newName = a\<lparr>ownerName := newName\<rparr>"

text \<open>
  The field \<open>_celsius\<close> of \<open>Temperature\<close> is \<open>priv_celsius\<close> here. The literal \<open>-273.15\<close> is
  read as the decimal; the double it denotes is the nearest one, which lies above the
  decimal, so the test \<open>value < -273.15\<close> has the same outcome on every double.
\<close>

record Temperature =
  priv_celsius :: js_number

definition Temperature_new :: Temperature where
  "Temperature_new = \<lparr>priv_celsius = Fin 0\<rparr>"

definition celsius :: "Temperature \<Rightarrow> js_number" where
  "celsius t = priv_celsius t"

definition set_celsius :: "Temperature \<Rightarrow> js_number \<Rightarrow> js_error + Temperature" where
  "set_celsius t v =
     (if js_lt v (Fin (- 273.15))
      then Inl (Error ''Temperature below absolute zero is not possible'')
      else Inr (t\<lparr>priv_celsius := v\<rparr>))"

definition fahrenheit :: "runtime \<Rightarrow> Temperature \<Rightarrow> js_number" where
  "fahrenheit rt t =
     js_add rt (js_div rt (js_mul rt (priv_celsius t) (Fin 9)) (Fin 5)) (Fin 32)"

text \<open>The \<open>fahrenheit\<close> setter assigns to \<open>this.celsius\<close>, that is, it calls the setter above.\<close>

definition set_fahrenheit :: "runtime \<Rightarrow> Temperature \<Rightarrow> js_number \<Rightarrow> js_error + Temperature" where
  "set_fahrenheit rt t v =
     set_celsius t (js_div rt (js_mul rt (js_sub rt v (Fin 32)) (Fin 5)) (Fin 9))"

text \<open>
  The states a \<open>Temperature\<close> object can be in: the state after the constructor, and the
  state after any setter call that returned.
\<close>

inductive Temperature_reachable :: "runtime \<Rightarrow> Temperature \<Rightarrow> bool" for rt :: runtime where
  constructed: "Temperature_reachable rt Temperature_new"
| celsius_set:
    "Temperature_reachable rt t \<Longrightarrow> set_celsius t v = Inr t' \<Longrightarrow> Temperature_reachable rt t'"
| fahrenheit_set:
    "Temperature_reachable rt t \<Longrightarrow> set_fahrenheit rt t v = Inr t' \<Longrightarrow>
     Temperature_reachable rt t'"

text \<open>\<open>Box\<close>: the field \<open>value\<close> is \<open>box_value\<close> here.\<close>

record 'a Box =
  box_value :: 'a

definition Box_new :: "'a \<Rightarrow> 'a Box" where
  "Box_new v = \<lparr>box_value = v\<rparr>"

definition getValue :: "'a Box \<Rightarrow> 'a" where
  "getValue b = box_value b"

definition setValue :: "'a Box \<Rightarrow> 'a \<Rightarrow> 'a Box" where
  "setValue b v = b\<lparr>box_value := v\<rparr>"

text \<open>
  \<open>Container\<close>: the static field \<open>count\<close> belongs to the class, not to an instance, so the
  constructor takes the current count and returns the new one with the instance.
\<close>

record 'a Container =
  container_value :: 'a

definition Container_count_initial :: nat where
  "Container_count_initial = 0"

definition Container_new :: "'a \<Rightarrow> nat \<Rightarrow> 'a Container \<times> nat" where
  "Container_new v count = (\<lparr>container_value = v\<rparr>, count + 1)"

definition getCount :: "nat \<Rightarrow> nat" where
  "getCount count = count"

text \<open>
  \<open>createState\<close>: the closure variable \<open>state\<close> is shared by the returned \<open>get\<close> and
  \<open>set\<close>, here \<open>state_get\<close> and \<open>state_set\<close>.
\<close>

record 'a State =
  state :: 'a

definition createState :: "'a \<Rightarrow> 'a State" where
  "createState initial = \<lparr>state = initial\<rparr>"

definition state_get :: "'a State \<Rightarrow> 'a" where
  "state_get s = state s"

definition state_set :: "'a State \<Rightarrow> 'a \<Rightarrow> 'a State" where
  "state_set s newState = s\<lparr>state := newState\<rparr>"

text \<open>
  A history of calls on one object: reads (\<open>getValue()\<close>, \<open>get()\<close>, \<open>getCount()\<close>) and
  writes (\<open>setValue(v)\<close>, \<open>set(v)\<close>, \<open>new Container(v)\<close>), and the state after it.
\<close>

datatype 'a call = Read | Write 'a

fun writes :: "'a call list \<Rightarrow> 'a list" where
  "writes [] = []"
| "writes (Read # cs) = writes cs"
| "writes (Write v # cs) = v # writes cs"

fun Box_after :: "'a Box \<Rightarrow> 'a call list \<Rightarrow> 'a Box" where
  "Box_after b [] = b"
| "Box_after b (Read # cs) = Box_after b cs"
| "Box_after b (Write v # cs) = Box_after (setValue b v) cs"

fun State_after :: "'a State \<Rightarrow> 'a call list \<Rightarrow> 'a State" where
  "State_after s [] = s"
| "State_after s (Read # cs) = State_after s cs"
| "State_after s (Write v # cs) = State_after (state_set s v) cs"

fun Container_count_after :: "nat \<Rightarrow> 'a call list \<Rightarrow> nat" where
  "Container_count_after count [] = count"
| "Container_count_after count (Read # cs) = Container_count_after count cs"
| "Container_count_after count (Write v # cs) = Container_count_after (snd (Container_new v count)) cs"

section \<open>Collection: arrays in a store\<close>

text \<open>
  A \<open>Collection\<close> holds a reference to its \<open>items\<close> array, and \<open>getAll\<close> hands an array
  out, so arrays live in a store: the array at address \<open>a\<close> of the store \<open>h\<close> is \<open>h ! a\<close>,
  and a new array gets the next free address \<open>length h\<close>. Generic type parameters are erased
  at run time, so one type \<open>'v\<close> of values serves every collection.
\<close>

type_synonym 'v store = "'v list list"

record Collection =
  items :: nat

definition Collection_new :: "'v store \<Rightarrow> Collection \<times> 'v store" where
  "Collection_new h = (\<lparr>items = length h\<rparr>, h @ [[]])"

definition Collection_add :: "Collection \<Rightarrow> 'v \<Rightarrow> 'v store \<Rightarrow> 'v store" where
  "Collection_add c item h = h[items c := h ! items c @ [item]]"

text \<open>
  \<open>Array.prototype.forEach\<close> on the array at address \<open>a\<close>: the length is read once, then
  each index below it is visited in order and read from the array as it is at that
  moment; an index the array no longer has is skipped.
\<close>

definition forEach :: "nat \<Rightarrow> ('v \<Rightarrow> 'v store \<Rightarrow> 'v store) \<Rightarrow> 'v store \<Rightarrow> 'v store" where
  "forEach a callback h =
     foldl (\<lambda>h k. if k < length (h ! a) then callback (h ! a ! k) h else h)
       h [0..<length (h ! a)]"

text \<open>
  The callbacks given to \<open>map\<close> and \<open>filter\<close> are functions with effects: they take the item
  and the store and return their result with the new store.
\<close>

definition Collection_map ::
  "('v \<Rightarrow> 'v store \<Rightarrow> 'v \<times> 'v store) \<Rightarrow> Collection \<Rightarrow> 'v store \<Rightarrow> Collection \<times> 'v store" where
  "Collection_map fn c h =
     (let (result, h1) = Collection_new h;
          h2 = forEach (items c)
                 (\<lambda>item h. let (u, h') = fn item h in Collection_add result u h') h1
      in (result, h2))"

definition Collection_filter ::
  "('v \<Rightarrow> 'v store \<Rightarrow> bool \<times> 'v store) \<Rightarrow> Collection \<Rightarrow> 'v store \<Rightarrow> Collection \<times> 'v store" where
  "Collection_filter predicate c h =
     (let (result, h1) = Collection_new h;
          h2 = forEach (items c)
                 (\<lambda>item h. let (keep, h') = predicate item h
                            in if keep then Collection_add result item h' else h') h1
      in (result, h2))"

text \<open>\<open>[...this.items]\<close> allocates a new array with the same elements.\<close>

definition Collection_getAll :: "Collection \<Rightarrow> 'v store \<Rightarrow> nat \<times> 'v store" where
  "Collection_getAll c h = (length h, h @ [h ! items c])"

text \<open>
  A callback without effects, and one with: \<open>tally\<close> doubles the item and also pushes it
  onto the array at address 1.
\<close>

definition pure_callback :: "('v \<Rightarrow> 'b) \<Rightarrow> 'v \<Rightarrow> 'v store \<Rightarrow> 'b \<times> 'v store" where
  "pure_callback f item h = (f item, h)"

definition tally :: "int \<Rightarrow> int store \<Rightarrow> int \<times> int store" where
  "tally item h = (item * 2, h[1 := h ! 1 @ [item]])"

text \<open>A callback that writes to a collection: \<open>n => { c.add(n); return n }\<close>.\<close>

definition adding :: "Collection \<Rightarrow> 'v \<Rightarrow> 'v store \<Rightarrow> 'v \<times> 'v store" where
  "adding c item h = (item, Collection_add c item h)"

section \<open>Retry with backoff\<close>

record RetryOptions =
  maxRetries :: js_number
  delay :: js_number
  backoffFactor :: js_number

text \<open>The test \<open>error instanceof ApiError && error.status >= 500\<close>.\<close>

fun retryable :: "js_error \<Rightarrow> bool" where
  "retryable (ApiError status c m d) = js_ge status (Fin 500)"
| "retryable e = False"

text \<open>
  \<open>withRetry\<close> runs in a world of type \<open>'s\<close> that \<open>fn\<close> and whatever runs during a wait can
  change. \<open>fn\<close> takes the world and returns its outcome (\<open>Inl\<close> what the promise rejects
  with, \<open>Inr\<close> what it resolves to) with the new world; \<open>wait d\<close> is what happens to the
  world while the timer set to \<open>d\<close> runs. The \<open>options\<close> object is part of the world:
  \<open>options s\<close> reads its three properties in the world \<open>s\<close>, and the loop reads
  \<open>options.maxRetries\<close> again at every test.

  What \<open>withRetry\<close> itself does is recorded as a list of events, in order: each invocation
  of \<open>fn\<close> with its outcome, each \<open>console.log\<close> line (by the three numbers it prints:
  \<open>retryDelay\<close>, \<open>attempt + 1\<close> and \<open>options.maxRetries\<close>) and each timer (by the delay given
  to \<open>setTimeout\<close>).

  The loop need not end (\<open>maxRetries\<close> can be \<open>Infinity\<close>), so it runs on fuel, one unit for
  each test of the loop condition: \<open>None\<close> is a run that has not returned within the fuel.
\<close>

datatype 'a retry_event =
    Invoked "js_error + 'a"
  | Logged js_number nat js_number
  | Waited js_number

fun withRetry_loop ::
  "runtime \<Rightarrow> ('s \<Rightarrow> (js_error + 'a) \<times> 's) \<Rightarrow> ('s \<Rightarrow> RetryOptions) \<Rightarrow> (js_number \<Rightarrow> 's \<Rightarrow> 's)
     \<Rightarrow> nat \<Rightarrow> nat \<Rightarrow> js_error \<Rightarrow> 's \<Rightarrow> ((js_error + 'a) \<times> 's \<times> 'a retry_event list) option" where
  "withRetry_loop rt fn options wait 0 attempt lastError s = None"
| "withRetry_loop rt fn options wait (Suc fuel) attempt lastError s =
     (if js_lt (Fin (real attempt)) (maxRetries (options s)) then
        (case fn s of
           (Inr v, s') \<Rightarrow> Some (Inr v, s', [Invoked (Inr v)])
         | (Inl error, s') \<Rightarrow>
             if retryable error then
               (let retryDelay =
                      js_mul rt (delay (options s'))
                        (js_pow rt (backoffFactor (options s')) attempt)
                in case withRetry_loop rt fn options wait fuel (Suc attempt) error
                          (wait retryDelay s') of
                     None \<Rightarrow> None
                   | Some (r, s'', events) \<Rightarrow>
                       Some (r, s'',
                         Invoked (Inl error)
                         # Logged retryDelay (attempt + 1) (maxRetries (options s'))
                         # Waited retryDelay # events))
             else Some (Inl error, s', [Invoked (Inl error)]))
      else Some (Inl lastError, s, []))"

text \<open>\<open>lastError\<close> starts as \<open>undefined\<close>; the options default to three attempts.\<close>

definition withRetry ::
  "runtime \<Rightarrow> ('s \<Rightarrow> (js_error + 'a) \<times> 's) \<Rightarrow> ('s \<Rightarrow> RetryOptions) \<Rightarrow> (js_number \<Rightarrow> 's \<Rightarrow> 's)
     \<Rightarrow> nat \<Rightarrow> 's \<Rightarrow> ((js_error + 'a) \<times> 's \<times> 'a retry_event list) option" where
  "withRetry rt fn options wait fuel s =
     withRetry_loop rt fn options wait fuel 0 (Thrown JUndefined) s"

definition default_RetryOptions :: RetryOptions where
  "default_RetryOptions = \<lparr>maxRetries = Fin 3, delay = Fin 300, backoffFactor = Fin 2\<rparr>"


fun waits :: "'a retry_event list \<Rightarrow> js_number list" where
  "waits [] = []"
| "waits (Waited d # es) = d # waits es"
| "waits (e # es) = waits es"

text \<open>
  Worlds for examples: a counter of the invocations of \<open>fn\<close> and the options object (read
  by \<open>snd\<close>). \<open>unavailable\<close> always rejects with a 503 \<open>ApiError\<close>, \<open>flaky\<close> does so twice and
  then resolves, \<open>forbidden\<close> always rejects with a 403 \<open>ApiError\<close>, and \<open>lowering\<close> rejects
  with the 503 \<open>ApiError\<close> after setting \<open>options.maxRetries\<close> to 1. Nothing else runs during
  the waits of the examples (\<open>idle\<close>). \<open>fetch_options\<close> are the options that
  \<open>fetchUserWithRetry\<close> passes; \<open>fractional_options\<close> and \<open>unbounded_options\<close> differ from
  them in \<open>maxRetries\<close>.
\<close>

definition unavailable_error :: js_error where
  "unavailable_error = ApiError (Fin 503) (JStr ''UNAVAILABLE'') ''Service Unavailable'' JUndefined"

definition forbidden_error :: js_error where
  "forbidden_error = ApiError (Fin 403) (JStr ''FORBIDDEN'') ''Permission denied'' JUndefined"

definition unavailable :: "nat \<times> RetryOptions \<Rightarrow> (js_error + string) \<times> nat \<times> RetryOptions" where
  "unavailable w = (Inl unavailable_error, Suc (fst w), snd w)"

definition flaky :: "nat \<times> RetryOptions \<Rightarrow> (js_error + string) \<times> nat \<times> RetryOptions" where
  "flaky w = (if fst w < 2 then Inl unavailable_error else Inr ''John Doe'', Suc (fst w), snd w)"

definition forbidden :: "nat \<times> RetryOptions \<Rightarrow> (js_error + string) \<times> nat \<times> RetryOptions" where
  "forbidden w = (Inl forbidden_error, Suc (fst w), snd w)"

definition lowering :: "nat \<times> RetryOptions \<Rightarrow> (js_error + string) \<times> nat \<times> RetryOptions" where
  "lowering w = (Inl unavailable_error, Suc (fst w), (snd w)\<lparr>maxRetries := Fin 1\<rparr>)"

definition idle :: "js_number \<Rightarrow> 's \<Rightarrow> 's" where
  "idle d s = s"

definition fetch_options :: RetryOptions where
  "fetch_options = \<lparr>maxRetries = Fin 3, delay = Fin 500, backoffFactor = Fin 1.5\<rparr>"


definition unbounded_options :: RetryOptions where
  "unbounded_options = \<lparr>maxRetries = PosInf, delay = Fin 500, backoffFactor = Fin 1.5\<rparr>"

section \<open>Snippets that call other snippets\<close>

text \<open>
  Some functions of \<^verbatim>\<open>errorsHandling.ts\<close> write to the console and call another
  function declared in the repository. They take and return the world: the console lines
  written so far (each the list of its arguments) and the rest of the world, which only
  the functions they call can change. A template literal among the arguments is recorded
  by its parts, the numbers not yet converted to strings.
\<close>

datatype template_part = Lit string | Num js_number

datatype console_arg = Val js_value | Err js_error | Template "template_part list"

record 'n world =
  console :: "console_arg list list"
  rest :: 'n

definition console_error :: "console_arg list \<Rightarrow> 'n world \<Rightarrow> 'n world" where
  "console_error args w = w\<lparr>console := console w @ [args]\<rparr>"

text \<open>
  A function declaration is a binding that is looked up when the call is made. In
  \<open>performDivision\<close> and \<open>saveUser\<close> the function that the name \<open>divide\<close>, \<open>validateUser\<close>
  denotes is the first parameter: a function of the world of the signature the source
  declares. \<open>performDivision\<close> returns a number or \<open>null\<close>.
\<close>

definition performDivision ::
  "(real \<Rightarrow> real \<Rightarrow> 'n world \<Rightarrow> (real, js_error) Result \<times> 'n world)
     \<Rightarrow> real \<Rightarrow> real \<Rightarrow> 'n world \<Rightarrow> js_value \<times> 'n world" where
  "performDivision divide_fn a b w =
     (let (result, w1) = divide_fn a b w
      in case result of
           Success v \<Rightarrow> (JNum v, w1)
         | Failure error \<Rightarrow> (JNull, console_error [Val (error_message error)] w1))"

definition validateUser :: "js_value \<Rightarrow> js_error + unit" where
  "validateUser user =
     (if typeof_js user \<noteq> ''object'' \<or> user = JNull
      then Inl (ValidationError ''User must be an object'')
      else Inr ())"

definition saveUser ::
  "(js_value \<Rightarrow> 'n world \<Rightarrow> (js_error + unit) \<times> 'n world) \<Rightarrow> js_value \<Rightarrow> 'n world \<Rightarrow> 'n world" where
  "saveUser validateUser_fn user w =
     (case validateUser_fn user w of
        (Inr u, w1) \<Rightarrow> w1
      | (Inl error, w1) \<Rightarrow>
          (case error of
             ValidationError m \<Rightarrow>
               console_error [Val (JStr ''Validation failed:''), Val (error_message error)] w1
           | DatabaseError m c \<Rightarrow>
               console_error [Template [Lit ''Database error '', Num c, Lit '':''],
                              Val (error_message error)] w1
           | _ \<Rightarrow> console_error [Val (JStr ''Unknown error:''), Err error] w1))"

text \<open>
  What the two names denote in the repository: \<open>divide\<close> and \<open>validateUser\<close>, which leave
  the world as it is.
\<close>

definition repository_divide ::
  "real \<Rightarrow> real \<Rightarrow> 'n world \<Rightarrow> (real, js_error) Result \<times> 'n world" where
  "repository_divide a b w = (divide_result a b, w)"

definition repository_validateUser :: "js_value \<Rightarrow> 'n world \<Rightarrow> (js_error + unit) \<times> 'n world" where
  "repository_validateUser user w = (validateUser user, w)"

text \<open>
  For examples, in a world whose rest is a counter: \<open>divide\<close> and \<open>validateUser\<close> made to
  count their invocations, and a function that throws what it is given.
\<close>

definition counted_divide ::
  "real \<Rightarrow> real \<Rightarrow> nat world \<Rightarrow> (real, js_error) Result \<times> nat world" where
  "counted_divide a b w = (divide_result a b, w\<lparr>rest := Suc (rest w)\<rparr>)"

definition counted_validateUser :: "js_value \<Rightarrow> nat world \<Rightarrow> (js_error + unit) \<times> nat world" where
  "counted_validateUser user w = (validateUser user, w\<lparr>rest := Suc (rest w)\<rparr>)"

definition throwing :: "js_error \<Rightarrow> js_value \<Rightarrow> nat world \<Rightarrow> (js_error + unit) \<times> nat world" where
  "throwing error user w = (Inl error, w\<lparr>rest := Suc (rest w)\<rparr>)"

section \<open>Theorems\<close>

subsection \<open>Division\<close>

text \<open>
  C8: \<open>divide_result a b\<close> is the failure branch carrying the error "Division by zero" exactly
  when \<open>b = 0\<close> and the success branch with value \<open>a / b\<close> exactly when \<open>b \<noteq> 0\<close>, and
  \<open>divideEither a b\<close> is \<open>left "Division by zero"\<close> exactly when \<open>b = 0\<close> and \<open>right (a / b)\<close>
  exactly when \<open>b \<noteq> 0\<close>.
\<close>

theorem divide_failure_iff_zero:
  "(divide_result a b = Failure (Error ''Division by zero'')) = (b = 0)
   \<and> (\<exists>e. divide_result a b = Failure e) = (b = 0)
   \<and> (divide_result a b = Success (a / b)) = (b \<noteq> 0)
   \<and> (divideEither a b = left ''Division by zero'') = (b = 0)
   \<and> (\<exists>m. divideEither a b = left m) = (b = 0)
   \<and> (divideEither a b = right (a / b)) = (b \<noteq> 0)"
  by (simp add: divide_result_def divideEither_def left_def right_def)

subsection \<open>Assertion function\<close>

text \<open>
  C5: \<open>assertIsString value message\<close> returns normally exactly when \<open>value\<close> is a string
  and throws an \<open>Error\<close> exactly when it is not; \<open>processInput\<close> returns the upper-cased
  input for every string and throws exactly for the values that are no string.
\<close>

theorem assertIsString_iff_string:
  "(assertIsString v msg = Inr ()) = (\<exists>s. v = JStr s)
   \<and> (\<exists>m. assertIsString v msg = Inl (Error m)) = (\<not> (\<exists>s. v = JStr s))
   \<and> processInput toUpperCase (JStr s) = Inr (toUpperCase s)
   \<and> (\<exists>e. processInput toUpperCase v = Inl e) = (\<not> (\<exists>s. v = JStr s))"
  by (cases v) (simp_all add: assertIsString_def processInput_def)

subsection \<open>Type guard\<close>

text \<open>
  C7: \<open>isFish\<close> is true on every pet of the Fish shape (\<open>swim\<close> and \<open>layEggs\<close> are
  methods) and false on every pet of the Bird shape (\<open>fly\<close> and \<open>layEggs\<close> are methods and
  there is no \<open>swim\<close> member).
\<close>

theorem isFish_sound_complete:
  "(Fish_shape pet \<longrightarrow> isFish pet) \<and> (Bird_shape pet \<longrightarrow> \<not> isFish pet)"
proof
  show "Fish_shape pet \<longrightarrow> isFish pet"
    by (auto simp: Fish_shape_def isFish_def is_method_def split: js_value.splits)
next
  show "Bird_shape pet \<longrightarrow> \<not> isFish pet"
    by (simp add: Bird_shape_def isFish_def get_prop_def)
qed

theorem isFish_sound_complete_witness:
  "Fish_shape [(''swim'', JFunc 0), (''layEggs'', JFunc 1)]
   \<and> isFish [(''swim'', JFunc 0), (''layEggs'', JFunc 1)]
   \<and> Bird_shape [(''fly'', JFunc 2), (''layEggs'', JFunc 1)]
   \<and> \<not> isFish [(''fly'', JFunc 2), (''layEggs'', JFunc 1)]"
proof -
  have f: "Fish_shape [(''swim'', JFunc 0), (''layEggs'', JFunc 1)]"
    by (simp add: Fish_shape_def is_method_def get_prop_def)
  have b: "Bird_shape [(''fly'', JFunc 2), (''layEggs'', JFunc 1)]"
    by (simp add: Bird_shape_def is_method_def get_prop_def)
  from f b
    isFish_sound_complete [of "[(''swim'', JFunc 0), (''layEggs'', JFunc 1)]"]
    isFish_sound_complete [of "[(''fly'', JFunc 2), (''layEggs'', JFunc 1)]"]
  show ?thesis by blast
qed

text \<open>So \<open>careForPet\<close> calls a method that the pet has.\<close>

lemma careForPet_safe:
  "(Fish_shape pet \<longrightarrow> (\<exists>f. careForPet pet = Inr f \<and> get_prop pet ''swim'' = JFunc f))
   \<and> (Bird_shape pet \<longrightarrow> (\<exists>f. careForPet pet = Inr f \<and> get_prop pet ''fly'' = JFunc f))"
  by (auto simp: Fish_shape_def Bird_shape_def careForPet_def isFish_def call_method_def
      is_method_def get_prop_def split: js_value.splits option.splits)

subsection \<open>Form validation\<close>

lemma username_ok_iff:
  "(\<not> (\<not> truthy u \<or> typeof_js u \<noteq> ''string'') \<and> \<not> str_length u < 3)
     = (\<exists>s. u = JStr s \<and> s \<noteq> [] \<and> 3 \<le> length s)"
  by (cases u) auto

lemma email_ok_iff:
  "(\<not> (\<not> truthy u \<or> typeof_js u \<noteq> ''string'') \<and> str_includes u CHR ''@'')
     = (\<exists>s. u = JStr s \<and> s \<noteq> [] \<and> CHR ''@'' \<in> set s)"
  by (cases u) auto

lemma age_ok_iff:
  "(\<not> (u = JUndefined \<or> typeof_js u \<noteq> ''number'') \<and> \<not> num_less u 18)
     = (\<exists>a. u = JNum a \<and> \<not> a < 18)"
  by (cases u) auto

lemma validate_object:
  "validateUserForm (JObj ps) = Valid d \<longleftrightarrow>
     (\<not> (\<not> truthy (get_prop ps ''username'') \<or> typeof_js (get_prop ps ''username'') \<noteq> ''string'')
        \<and> \<not> str_length (get_prop ps ''username'') < 3)
   \<and> (\<not> (\<not> truthy (get_prop ps ''email'') \<or> typeof_js (get_prop ps ''email'') \<noteq> ''string'')
        \<and> str_includes (get_prop ps ''email'') CHR ''@'')
   \<and> (\<not> (get_prop ps ''age'' = JUndefined \<or> typeof_js (get_prop ps ''age'') \<noteq> ''number'')
        \<and> \<not> num_less (get_prop ps ''age'') 18)
   \<and> d = \<lparr>username = get_prop ps ''username'', email = get_prop ps ''email'',
           age = get_prop ps ''age''\<rparr>"
proof -
  have obj: "typeof_js (JObj ps) = ''object''" by simp
  show ?thesis
    unfolding validateUserForm_def Let_def
    by (auto simp del: typeof_js.simps truthy.simps simp add: obj)
qed

lemma validate_invalid_nonempty:
  "(\<exists>d. validateUserForm form = Valid d)
   \<or> (\<exists>errs. validateUserForm form = Invalid errs \<and> errs \<noteq> [])"
  unfolding validateUserForm_def Let_def
  by (simp del: typeof_js.simps truthy.simps)

lemma not_object_iff:
  "(typeof_js form \<noteq> ''object'' \<or> form = JNull) = (\<not> (\<exists>ps. form = JObj ps))"
  by (cases form) simp_all

lemma validate_not_object:
  "\<not> (\<exists>ps. form = JObj ps) \<Longrightarrow>
   validateUserForm form =
     Invalid [\<lparr>field = ''_form'', message = ''Form data must be an object'',
                code = ''INVALID_FORM''\<rparr>]"
  using not_object_iff [of form] by (simp add: validateUserForm_def)

text \<open>
  C9: \<open>validateUserForm form\<close> is valid exactly when \<open>form\<close> is a non-null object (a
  value whose \<open>typeof\<close> is \<open>object\<close> and that is not \<open>null\<close>) whose
  \<open>username\<close> is a non-empty string of length at least 3, whose \<open>email\<close> is a non-empty
  string containing \<open>@\<close> and whose \<open>age\<close> is a number not less than 18 (the data then holds
  these three values); in every other case the result is invalid with a non-empty list of
  errors, and when \<open>form\<close> is not a non-null object the list is the single \<open>_form\<close> error.
\<close>

theorem validateUserForm_valid_iff:
  "(validateUserForm form = Valid d) =
     (\<exists>ps u e a. form = JObj ps
        \<and> get_prop ps ''username'' = JStr u \<and> u \<noteq> [] \<and> 3 \<le> length u
        \<and> get_prop ps ''email'' = JStr e \<and> e \<noteq> [] \<and> CHR ''@'' \<in> set e
        \<and> get_prop ps ''age'' = JNum a \<and> \<not> a < 18
        \<and> d = \<lparr>username = JStr u, email = JStr e, age = JNum a\<rparr>)
   \<and> ((\<forall>d'. validateUserForm form \<noteq> Valid d') \<longrightarrow>
        (\<exists>errs. validateUserForm form = Invalid errs \<and> errs \<noteq> []))
   \<and> (\<not> (\<exists>ps. form = JObj ps) \<longrightarrow>
        validateUserForm form =
          Invalid [\<lparr>field = ''_form'', message = ''Form data must be an object'',
                     code = ''INVALID_FORM''\<rparr>])"
proof (intro conjI)
  show "(validateUserForm form = Valid d) =
     (\<exists>ps u e a. form = JObj ps
        \<and> get_prop ps ''username'' = JStr u \<and> u \<noteq> [] \<and> 3 \<le> length u
        \<and> get_prop ps ''email'' = JStr e \<and> e \<noteq> [] \<and> CHR ''@'' \<in> set e
        \<and> get_prop ps ''age'' = JNum a \<and> \<not> a < 18
        \<and> d = \<lparr>username = JStr u, email = JStr e, age = JNum a\<rparr>)"
  proof (cases "\<exists>ps. form = JObj ps")
    case True
    then obtain ps where form: "form = JObj ps" by blast
    show ?thesis
      unfolding form validate_object username_ok_iff email_ok_iff age_ok_iff
      by auto
  next
    case False
    with validate_not_object [of form] show ?thesis by auto
  qed
next
  show "(\<forall>d'. validateUserForm form \<noteq> Valid d') \<longrightarrow>
        (\<exists>errs. validateUserForm form = Invalid errs \<and> errs \<noteq> [])"
    using validate_invalid_nonempty [of form] by blast
next
  show "\<not> (\<exists>ps. form = JObj ps) \<longrightarrow>
        validateUserForm form =
          Invalid [\<lparr>field = ''_form'', message = ''Form data must be an object'',
                     code = ''INVALID_FORM''\<rparr>]"
    using validate_not_object [of form] by blast
qed

theorem validateUserForm_valid_iff_witness:
  "validateUserForm (JObj [(''username'', JStr ''alice''), (''email'', JStr ''a@b.c''),
                           (''age'', JNum 30)])
     = Valid \<lparr>username = JStr ''alice'', email = JStr ''a@b.c'', age = JNum 30\<rparr>
   \<and> (\<exists>errs. validateUserForm (JObj [(''username'', JStr ''al''), (''email'', JStr ''a@b.c''),
                           (''age'', JNum 17)]) = Invalid errs \<and> errs \<noteq> [])
   \<and> validateUserForm JNull =
          Invalid [\<lparr>field = ''_form'', message = ''Form data must be an object'',
                     code = ''INVALID_FORM''\<rparr>]"
proof (intro conjI)
  show "validateUserForm (JObj [(''username'', JStr ''alice''), (''email'', JStr ''a@b.c''),
                           (''age'', JNum 30)])
     = Valid \<lparr>username = JStr ''alice'', email = JStr ''a@b.c'', age = JNum 30\<rparr>"
    using validateUserForm_valid_iff
      [of "JObj [(''username'', JStr ''alice''), (''email'', JStr ''a@b.c''), (''age'', JNum 30)]"
          "\<lparr>username = JStr ''alice'', email = JStr ''a@b.c'', age = JNum 30\<rparr>"]
    by (simp add: get_prop_def)
next
  have "\<forall>d'. validateUserForm (JObj [(''username'', JStr ''al''), (''email'', JStr ''a@b.c''),
                           (''age'', JNum 17)]) \<noteq> Valid d'"
    by (simp add: validateUserForm_def get_prop_def)
  then show "\<exists>errs. validateUserForm (JObj [(''username'', JStr ''al''), (''email'', JStr ''a@b.c''),
                           (''age'', JNum 17)]) = Invalid errs \<and> errs \<noteq> []"
    using validateUserForm_valid_iff
      [of "JObj [(''username'', JStr ''al''), (''email'', JStr ''a@b.c''), (''age'', JNum 17)]"]
    by blast
next
  show "validateUserForm JNull =
          Invalid [\<lparr>field = ''_form'', message = ''Form data must be an object'',
                     code = ''INVALID_FORM''\<rparr>]"
    using validateUserForm_valid_iff [of JNull] by blast
qed

subsection \<open>Runtime checks of the classes\<close>

text \<open>What the two guards let through: everything but the numbers they name.\<close>

lemma not_le_zero: "(\<not> js_le x (Fin 0)) = (x = NaN \<or> x = PosInf \<or> (\<exists>a. x = Fin a \<and> 0 < a))"
  by (cases x) auto

lemma not_below_absolute_zero:
  "(\<not> js_lt x (Fin (- 273.15))) = (x = NaN \<or> x = PosInf \<or> (\<exists>a. x = Fin a \<and> - 273.15 \<le> a))"
  by (cases x) auto

lemma set_celsius_accepts: "(\<exists>t'. set_celsius t v = Inr t') = (\<not> js_lt v (Fin (- 273.15)))"
  by (auto simp: set_celsius_def)

lemma set_celsius_result:
  "set_celsius t v = Inr t' \<Longrightarrow> celsius t' = v \<and> \<not> js_lt v (Fin (- 273.15))"
  by (auto simp: set_celsius_def celsius_def split: if_splits)

lemma reachable_not_below: "Temperature_reachable rt t \<Longrightarrow> \<not> js_lt (celsius t) (Fin (- 273.15))"
proof (induction rule: Temperature_reachable.induct)
  case constructed
  show ?case by (simp add: Temperature_new_def celsius_def)
next
  case (celsius_set t v t')
  from set_celsius_result [OF celsius_set.hyps(2)] show ?case by simp
next
  case (fahrenheit_set t v t')
  have "set_celsius t (js_div rt (js_mul rt (js_sub rt v (Fin 32)) (Fin 5)) (Fin 9)) = Inr t'"
    using fahrenheit_set.hyps(2) by (simp add: set_fahrenheit_def)
  from set_celsius_result [OF this] show ?case by simp
qed

text \<open>
  C2, as the code has it: two classes check their arguments at run time, whatever the
  arithmetic of the runtime. \<open>BankAccount.deposit\<close> throws exactly when \<open>amount <= 0\<close>, so
  it accepts the positive amounts and \<open>NaN\<close>, and then stores \<open>balance + amount\<close>. The
  \<open>celsius\<close> setter of \<open>Temperature\<close> throws exactly when \<open>value < -273.15\<close>, so it accepts
  \<open>NaN\<close> and every number from \<open>-273.15\<close> on; the \<open>fahrenheit\<close> setter throws exactly when the
  Celsius value it computes is below \<open>-273.15\<close>. In every state a \<open>Temperature\<close> object
  reaches through its constructor and setters, \<open>celsius < -273.15\<close> is false: it holds \<open>NaN\<close>
  or a number from \<open>-273.15\<close> on.
\<close>

theorem runtime_invariants:
  "(\<exists>a'. deposit rt a amount = Inr a') = (\<not> js_le amount (Fin 0))
   \<and> (\<not> js_le amount (Fin 0)) = (amount = NaN \<or> amount = PosInf \<or> (\<exists>x. amount = Fin x \<and> 0 < x))
   \<and> (deposit rt a amount = Inr a' \<longrightarrow> getBalance a' = js_add rt (getBalance a) amount)
   \<and> (\<exists>t'. set_celsius t v = Inr t') = (\<not> js_lt v (Fin (- 273.15)))
   \<and> (\<not> js_lt v (Fin (- 273.15))) = (v = NaN \<or> v = PosInf \<or> (\<exists>x. v = Fin x \<and> - 273.15 \<le> x))
   \<and> (\<exists>t'. set_fahrenheit rt t v = Inr t')
       = (\<not> js_lt (js_div rt (js_mul rt (js_sub rt v (Fin 32)) (Fin 5)) (Fin 9)) (Fin (- 273.15)))
   \<and> (Temperature_reachable rt t \<longrightarrow>
        \<not> js_lt (celsius t) (Fin (- 273.15))
        \<and> (celsius t = NaN \<or> celsius t = PosInf \<or> (\<exists>x. celsius t = Fin x \<and> - 273.15 \<le> x)))"
proof (intro conjI)
  show "(\<exists>a'. deposit rt a amount = Inr a') = (\<not> js_le amount (Fin 0))"
    by (auto simp: deposit_def)
  show "(\<not> js_le amount (Fin 0)) = (amount = NaN \<or> amount = PosInf \<or> (\<exists>x. amount = Fin x \<and> 0 < x))"
    by (rule not_le_zero)
  show "deposit rt a amount = Inr a' \<longrightarrow> getBalance a' = js_add rt (getBalance a) amount"
    by (auto simp: deposit_def getBalance_def split: if_splits)
  show "(\<exists>t'. set_celsius t v = Inr t') = (\<not> js_lt v (Fin (- 273.15)))"
    by (rule set_celsius_accepts)
  show "(\<not> js_lt v (Fin (- 273.15))) = (v = NaN \<or> v = PosInf \<or> (\<exists>x. v = Fin x \<and> - 273.15 \<le> x))"
    by (rule not_below_absolute_zero)
  show "(\<exists>t'. set_fahrenheit rt t v = Inr t')
       = (\<not> js_lt (js_div rt (js_mul rt (js_sub rt v (Fin 32)) (Fin 5)) (Fin 9)) (Fin (- 273.15)))"
    unfolding set_fahrenheit_def by (rule set_celsius_accepts)
  show "Temperature_reachable rt t \<longrightarrow>
        \<not> js_lt (celsius t) (Fin (- 273.15))
        \<and> (celsius t = NaN \<or> celsius t = PosInf \<or> (\<exists>x. celsius t = Fin x \<and> - 273.15 \<le> x))"
    using reachable_not_below [of rt t] not_below_absolute_zero [of "celsius t"] by blast
qed

theorem runtime_invariants_witness:
  "deposit exact_runtime (BankAccount_new ''123456789'' ''John Doe'' (Fin 1000)) (Fin 50)
     = Inr (BankAccount_new ''123456789'' ''John Doe'' (Fin 1050))
   \<and> getBalance (BankAccount_new ''123456789'' ''John Doe'' (Fin 1050))
       = js_add exact_runtime (getBalance (BankAccount_new ''123456789'' ''John Doe'' (Fin 1000)))
           (Fin 50)
   \<and> Temperature_reachable exact_runtime \<lparr>priv_celsius = Fin 25\<rparr>
   \<and> \<not> js_lt (celsius \<lparr>priv_celsius = Fin 25\<rparr>) (Fin (- 273.15))
   \<and> Temperature_reachable exact_runtime \<lparr>priv_celsius = NaN\<rparr>
   \<and> \<not> js_lt (celsius \<lparr>priv_celsius = NaN\<rparr>) (Fin (- 273.15))"
proof -
  have d: "deposit exact_runtime (BankAccount_new ''123456789'' ''John Doe'' (Fin 1000)) (Fin 50)
     = Inr (BankAccount_new ''123456789'' ''John Doe'' (Fin 1050))"
    by (simp add: deposit_def BankAccount_new_def exact_runtime_def)
  have "set_celsius Temperature_new (Fin 25) = Inr \<lparr>priv_celsius = Fin 25\<rparr>"
    by (simp add: set_celsius_def Temperature_new_def)
  then have r: "Temperature_reachable exact_runtime \<lparr>priv_celsius = Fin 25\<rparr>"
    using constructed celsius_set by blast
  have "set_celsius Temperature_new NaN = Inr \<lparr>priv_celsius = NaN\<rparr>"
    by (simp add: set_celsius_def Temperature_new_def)
  then have n: "Temperature_reachable exact_runtime \<lparr>priv_celsius = NaN\<rparr>"
    using constructed celsius_set by blast
  from d r n
    runtime_invariants [where rt = exact_runtime
      and a = "BankAccount_new ''123456789'' ''John Doe'' (Fin 1000)" and amount = "Fin 50"
      and a' = "BankAccount_new ''123456789'' ''John Doe'' (Fin 1050)"
      and t = "\<lparr>priv_celsius = Fin 25\<rparr>"]
    runtime_invariants [where rt = exact_runtime and t = "\<lparr>priv_celsius = NaN\<rparr>"]
  show ?thesis by blast
qed

text \<open>
  Against C2 as it is written (every method accepts every argument of its static type):
  \<open>deposit\<close> throws for the amount \<open>-5\<close> and the \<open>celsius\<close> setter throws for \<open>-300\<close>.
\<close>

theorem runtime_rejection_counterexample:
  "deposit exact_runtime (BankAccount_new ''123456789'' ''John Doe'' (Fin 1000)) (Fin (- 5))
     = Inl (Error ''Deposit amount must be positive'')
   \<and> set_celsius Temperature_new (Fin (- 300))
     = Inl (Error ''Temperature below absolute zero is not possible'')"
  by (simp add: deposit_def set_celsius_def)

text \<open>Both guards let \<open>NaN\<close> through.\<close>

lemma guards_accept_NaN:
  "deposit rt a NaN = Inr (a\<lparr>balance := js_add rt (balance a) NaN\<rparr>)
   \<and> set_celsius t NaN = Inr (t\<lparr>priv_celsius := NaN\<rparr>)"
  by (simp add: deposit_def set_celsius_def)

subsection \<open>Round trips through the accessors\<close>

text \<open>
  C6, as the code has it: the accessors of \<open>Temperature\<close> do satisfy round-trip laws.
  Whatever the \<open>celsius\<close> setter accepts is what the \<open>celsius\<close> getter then returns. The
  \<open>fahrenheit\<close> setter converts to Celsius in three operations and the \<open>fahrenheit\<close> getter
  converts back in three; for a finite input on which none of the six rounds, the getter
  returns the input whenever the setter accepted it. Nothing is said of the inputs on which
  one of them rounds.
\<close>

theorem temperature_round_trip:
  assumes "js_sub rt (Fin x) (Fin 32) = Fin (x - 32)"
    and "js_mul rt (Fin (x - 32)) (Fin 5) = Fin ((x - 32) * 5)"
    and "js_div rt (Fin ((x - 32) * 5)) (Fin 9) = Fin ((x - 32) * 5 / 9)"
    and "js_mul rt (Fin ((x - 32) * 5 / 9)) (Fin 9) = Fin ((x - 32) * 5 / 9 * 9)"
    and "js_div rt (Fin ((x - 32) * 5 / 9 * 9)) (Fin 5) = Fin ((x - 32) * 5 / 9 * 9 / 5)"
    and "js_add rt (Fin ((x - 32) * 5 / 9 * 9 / 5)) (Fin 32) = Fin ((x - 32) * 5 / 9 * 9 / 5 + 32)"
  shows "(set_celsius t v = Inr t' \<longrightarrow> celsius t' = v)
       \<and> (set_fahrenheit rt t (Fin x) = Inr t' \<longrightarrow> fahrenheit rt t' = Fin x)"
proof (intro conjI impI)
  assume "set_celsius t v = Inr t'"
  then show "celsius t' = v" by (auto simp: set_celsius_def celsius_def split: if_splits)
next
  have c: "js_div rt (js_mul rt (js_sub rt (Fin x) (Fin 32)) (Fin 5)) (Fin 9)
             = Fin ((x - 32) * 5 / 9)"
    by (simp only: assms(1-3))
  assume "set_fahrenheit rt t (Fin x) = Inr t'"
  then have "priv_celsius t' = Fin ((x - 32) * 5 / 9)"
    by (auto simp: set_fahrenheit_def c set_celsius_def split: if_splits)
  then have "fahrenheit rt t' = Fin ((x - 32) * 5 / 9 * 9 / 5 + 32)"
    by (simp only: fahrenheit_def assms(4-6))
  then show "fahrenheit rt t' = Fin x" by (simp add: field_simps)
qed

theorem temperature_round_trip_witness:
  "set_fahrenheit exact_runtime Temperature_new (Fin 68) = Inr \<lparr>priv_celsius = Fin 20\<rparr>
   \<and> fahrenheit exact_runtime \<lparr>priv_celsius = Fin 20\<rparr> = Fin 68
   \<and> set_celsius Temperature_new (Fin 25) = Inr \<lparr>priv_celsius = Fin 25\<rparr>
   \<and> celsius \<lparr>priv_celsius = Fin 25\<rparr> = Fin 25"
proof -
  have f: "set_fahrenheit exact_runtime Temperature_new (Fin 68) = Inr \<lparr>priv_celsius = Fin 20\<rparr>"
    by (simp add: set_fahrenheit_def set_celsius_def Temperature_new_def exact_runtime_def
        exact_sub_def)
  have c: "set_celsius Temperature_new (Fin 25) = Inr \<lparr>priv_celsius = Fin 25\<rparr>"
    by (simp add: set_celsius_def Temperature_new_def)
  have law: "(set_celsius Temperature_new (Fin 25) = Inr \<lparr>priv_celsius = Fin 25\<rparr>
               \<longrightarrow> celsius \<lparr>priv_celsius = Fin 25\<rparr> = Fin 25)
       \<and> (set_fahrenheit exact_runtime Temperature_new (Fin 68) = Inr \<lparr>priv_celsius = Fin 20\<rparr>
               \<longrightarrow> fahrenheit exact_runtime \<lparr>priv_celsius = Fin 20\<rparr> = Fin 68)"
    using temperature_round_trip [where rt = exact_runtime and x = 68 and t = Temperature_new
        and v = "Fin 25" and t' = "\<lparr>priv_celsius = Fin 25\<rparr>"]
      temperature_round_trip [where rt = exact_runtime and x = 68 and t = Temperature_new
        and t' = "\<lparr>priv_celsius = Fin 20\<rparr>"]
    by (simp add: exact_runtime_def exact_sub_def)
  from f c law show ?thesis by blast
qed

text \<open>
  Against C6 as it is written (no pair of operations where the second recovers the value
  given to the first): the source's own \<open>temp.celsius = 25\<close> followed by \<open>temp.celsius\<close> gives
  25.
\<close>

theorem round_trip_counterexample:
  "set_celsius Temperature_new (Fin 25) = Inr \<lparr>priv_celsius = Fin 25\<rparr>
   \<and> celsius \<lparr>priv_celsius = Fin 25\<rparr> = Fin 25"
  by (simp add: set_celsius_def Temperature_new_def celsius_def)

subsection \<open>State kept across calls\<close>

lemma Box_after_value: "getValue (Box_after b cs) = last (getValue b # writes cs)"
proof (induction cs arbitrary: b)
  case Nil
  show ?case by simp
next
  case (Cons c cs)
  show ?case
  proof (cases c)
    case Read
    with Cons show ?thesis by simp
  next
    case (Write v)
    have "getValue (setValue b v) = v" by (simp add: getValue_def setValue_def)
    with Write Cons [of "setValue b v"] show ?thesis by simp
  qed
qed

lemma State_after_value: "state_get (State_after s cs) = last (state_get s # writes cs)"
proof (induction s cs rule: State_after.induct)
  case (3 s v cs)
  have "state_get (state_set s v) = v" by (simp add: state_get_def state_set_def)
  with 3 show ?case by simp
qed simp_all

lemma Container_count_after_value:
  "getCount (Container_count_after n cs) = n + length (writes cs)"
  by (induction n cs rule: Container_count_after.induct)
     (simp_all add: getCount_def Container_new_def)

text \<open>
  C3, as the code has it: \<open>Box\<close>, \<open>createState\<close> and \<open>Container\<close> keep state across calls.
  After any history of calls, \<open>getValue()\<close> returns the argument of the last \<open>setValue\<close>
  (the constructor's argument when there was none), \<open>get()\<close> returns the argument of the
  last \<open>set\<close> (the initial value when there was none), and \<open>Container.getCount()\<close> returns
  the number of \<open>Container\<close> objects constructed so far: each result is a function of the
  history of calls, not of the arguments of the call alone.
\<close>

theorem results_follow_history:
  "getValue (Box_after (Box_new v) cs) = last (v # writes cs)
   \<and> state_get (State_after (createState v) cs) = last (v # writes cs)
   \<and> getCount (Container_count_after Container_count_initial cs) = length (writes cs)"
  using Box_after_value [of "Box_new v" cs] State_after_value [of "createState v" cs]
    Container_count_after_value [of Container_count_initial cs]
  by (simp add: getValue_def Box_new_def state_get_def createState_def
      Container_count_initial_def)

text \<open>
  Against C3 as it is written (the same call gives the same result whatever was called
  before): \<open>getValue()\<close>, \<open>get()\<close> and \<open>getCount()\<close> give another result after a \<open>setValue\<close>, a
  \<open>set\<close> or a constructor call.
\<close>

theorem history_independence_counterexample:
  "getValue (Box_after (Box_new (42::int)) [Read]) \<noteq> getValue (Box_after (Box_new 42) [Write 10, Read])
   \<and> state_get (State_after (createState (42::int)) []) \<noteq> state_get (State_after (createState 42) [Write 10])
   \<and> getCount (Container_count_after Container_count_initial [])
       \<noteq> getCount (Container_count_after Container_count_initial [Write (42::int)])"
  by (simp add: getValue_def setValue_def Box_new_def state_get_def state_set_def
      createState_def getCount_def Container_new_def Container_count_initial_def)

subsection \<open>Collection\<close>

lemma concat_kept: "concat (map (\<lambda>x. if p x then [x] else []) xs) = filter p xs"
  by (induction xs) simp_all

text \<open>What every step of a loop keeps, the loop keeps.\<close>

lemma foldl_keeps:
  assumes "I h" and "\<And>h k. I h \<Longrightarrow> I (step h k)"
  shows "I (foldl step h ks)"
  using assms by (induction ks arbitrary: h) simp_all

lemma forEach_keeps:
  assumes "a < length h"
    and "\<And>item h'. a < length h' \<and> h' ! a = xs \<Longrightarrow>
           a < length (callback item h') \<and> callback item h' ! a = xs"
    and "h ! a = xs"
  shows "a < length (forEach a callback h) \<and> forEach a callback h ! a = xs"
  unfolding forEach_def
  by (rule foldl_keeps [where I = "\<lambda>h'. a < length h' \<and> h' ! a = xs"]) (use assms in auto)

text \<open>A loop that only appends to another array reads the visited array as it was.\<close>

lemma visit_appending:
  assumes "a < length h" and "r < length h" and "a \<noteq> r"
  shows "foldl (\<lambda>h k. if k < length (h ! a) then h[r := h ! r @ g (h ! a ! k)] else h) h [0..<n]
           = h[r := h ! r @ concat (map g (take n (h ! a)))]"
proof (induction n)
  case 0
  show ?case by simp
next
  case (Suc n)
  let ?h = "h[r := h ! r @ concat (map g (take n (h ! a)))]"
  have a: "?h ! a = h ! a" using assms by simp
  have r: "?h ! r = h ! r @ concat (map g (take n (h ! a)))" using assms by simp
  show ?case
  proof (cases "n < length (h ! a)")
    case True
    then have "take (Suc n) (h ! a) = take n (h ! a) @ [h ! a ! n]"
      by (simp add: take_Suc_conv_app_nth)
    with True Suc a r show ?thesis by simp
  next
    case False
    with Suc a show ?thesis by simp
  qed
qed

lemma forEach_appending:
  assumes "a < length h" and "r < length h" and "a \<noteq> r"
  shows "forEach a (\<lambda>item h. h[r := h ! r @ g item]) h = h[r := h ! r @ concat (map g (h ! a))]"
  unfolding forEach_def using visit_appending [OF assms, of g "length (h ! a)"] by simp

lemma Collection_map_keeps:
  assumes live: "items c < length h"
    and fn: "\<And>item h'. items c < length h' \<Longrightarrow>
               items c < length (snd (fn item h')) \<and> snd (fn item h') ! items c = h' ! items c"
    and run: "Collection_map fn c h = (r, h')"
  shows "h' ! items c = h ! items c \<and> items r \<noteq> items c"
proof -
  let ?cb = "\<lambda>item h'. let (u, h'') = fn item h' in Collection_add \<lparr>items = length h\<rparr> u h''"
  have step: "items c < length (?cb item h1) \<and> ?cb item h1 ! items c = h ! items c"
    if "items c < length h1 \<and> h1 ! items c = h ! items c" for item h1
    using that fn [of h1 item] live
    by (cases "fn item h1") (simp add: Collection_add_def)
  have "items c < length (forEach (items c) ?cb (h @ [[]]))
          \<and> forEach (items c) ?cb (h @ [[]]) ! items c = h ! items c"
    using live by (intro forEach_keeps step) (simp_all add: nth_append)
  with run live show ?thesis
    by (auto simp: Collection_map_def Collection_new_def)
qed

lemma Collection_filter_keeps:
  assumes live: "items c < length h"
    and predicate: "\<And>item h'. items c < length h' \<Longrightarrow>
               items c < length (snd (predicate item h'))
               \<and> snd (predicate item h') ! items c = h' ! items c"
    and run: "Collection_filter predicate c h = (r, h')"
  shows "h' ! items c = h ! items c \<and> items r \<noteq> items c"
proof -
  let ?cb = "\<lambda>item h'. let (keep, h'') = predicate item h'
                        in if keep then Collection_add \<lparr>items = length h\<rparr> item h'' else h''"
  have step: "items c < length (?cb item h1) \<and> ?cb item h1 ! items c = h ! items c"
    if "items c < length h1 \<and> h1 ! items c = h ! items c" for item h1
    using that predicate [of h1 item] live
    by (cases "predicate item h1") (simp add: Collection_add_def)
  have "items c < length (forEach (items c) ?cb (h @ [[]]))
          \<and> forEach (items c) ?cb (h @ [[]]) ! items c = h ! items c"
    using live by (intro forEach_keeps step) (simp_all add: nth_append)
  with run live show ?thesis
    by (auto simp: Collection_filter_def Collection_new_def)
qed

lemma Collection_map_store:
  assumes "items c < length h"
  shows "Collection_map (pure_callback f) c h
           = (\<lparr>items = length h\<rparr>, h @ [map f (h ! items c)])"
proof -
  let ?h1 = "h @ [[]]"
  have cb: "(\<lambda>item h'. case pure_callback f item h' of
                          (u, h'') \<Rightarrow> Collection_add \<lparr>items = length h\<rparr> u h'')
              = (\<lambda>item h'. h'[length h := h' ! length h @ [f item]])"
    by (intro ext) (simp add: Collection_add_def pure_callback_def)
  have "forEach (items c) (\<lambda>item h'. h'[length h := h' ! length h @ [f item]]) ?h1
          = ?h1[length h := ?h1 ! length h @ concat (map (\<lambda>x. [f x]) (?h1 ! items c))]"
    using assms by (intro forEach_appending) simp_all
  also have "\<dots> = h @ [map f (h ! items c)]"
    using assms by (simp add: nth_append)
  finally show ?thesis
    by (simp add: Collection_map_def Collection_new_def cb)
qed

lemma Collection_filter_store:
  assumes "items c < length h"
  shows "Collection_filter (pure_callback p) c h
           = (\<lparr>items = length h\<rparr>, h @ [filter p (h ! items c)])"
proof -
  let ?h1 = "h @ [[]]"
  have cb: "(\<lambda>item h'. case pure_callback p item h' of
                          (keep, h'') \<Rightarrow>
                            if keep then Collection_add \<lparr>items = length h\<rparr> item h'' else h'')
              = (\<lambda>item h'. h'[length h := h' ! length h @ (if p item then [item] else [])])"
    by (intro ext) (simp add: Collection_add_def pure_callback_def)
  have "forEach (items c) (\<lambda>item h'. h'[length h := h' ! length h @ (if p item then [item] else [])]) ?h1
          = ?h1[length h := ?h1 ! length h
                  @ concat (map (\<lambda>x. if p x then [x] else []) (?h1 ! items c))]"
    using assms by (intro forEach_appending) simp_all
  also have "\<dots> = h @ [filter p (h ! items c)]"
    using assms by (simp add: concat_kept nth_append)
  finally show ?thesis
    by (simp add: Collection_filter_def Collection_new_def cb)
qed

text \<open>
  C10, as the code has it: let \<open>c\<close> be a collection of the store \<open>h\<close>. With callbacks that do not themselves
  write to the items of \<open>c\<close>, \<open>map\<close> and \<open>filter\<close> leave the items of \<open>c\<close> as they were and
  return another collection; with callbacks that have no effect, the new collection holds
  the mapped, the kept items and every array of the store is as it was. \<open>getAll\<close> returns a
  new array with the items of \<open>c\<close>, and whatever is then written to that array, the items of
  \<open>c\<close> stay as they were.
\<close>

theorem Collection_frame:
  assumes "items c < length h"
    and "\<And>item h'. items c < length h' \<Longrightarrow>
           items c < length (snd (fn item h')) \<and> snd (fn item h') ! items c = h' ! items c"
    and "\<And>item h'. items c < length h' \<Longrightarrow>
           items c < length (snd (predicate item h'))
           \<and> snd (predicate item h') ! items c = h' ! items c"
  shows "(Collection_map fn c h = (r, h') \<longrightarrow>
            h' ! items c = h ! items c \<and> items r \<noteq> items c)
       \<and> (Collection_filter predicate c h = (r, h') \<longrightarrow>
            h' ! items c = h ! items c \<and> items r \<noteq> items c)
       \<and> Collection_map (pure_callback f) c h
            = (\<lparr>items = length h\<rparr>, h @ [map f (h ! items c)])
       \<and> Collection_filter (pure_callback p) c h
            = (\<lparr>items = length h\<rparr>, h @ [filter p (h ! items c)])
       \<and> (Collection_getAll c h = (a, h') \<longrightarrow>
            a \<noteq> items c \<and> h' ! a = h ! items c \<and> h' ! items c = h ! items c
            \<and> (\<forall>ys. (h'[a := ys]) ! items c = h ! items c))"
proof (intro conjI impI)
  assume "Collection_map fn c h = (r, h')"
  from Collection_map_keeps [OF assms(1) assms(2) this]
  show "h' ! items c = h ! items c" and "items r \<noteq> items c" by simp_all
next
  assume "Collection_filter predicate c h = (r, h')"
  from Collection_filter_keeps [OF assms(1) assms(3) this]
  show "h' ! items c = h ! items c" and "items r \<noteq> items c" by simp_all
next
  show "Collection_map (pure_callback f) c h = (\<lparr>items = length h\<rparr>, h @ [map f (h ! items c)])"
    by (rule Collection_map_store [OF assms(1)])
  show "Collection_filter (pure_callback p) c h
          = (\<lparr>items = length h\<rparr>, h @ [filter p (h ! items c)])"
    by (rule Collection_filter_store [OF assms(1)])
next
  assume "Collection_getAll c h = (a, h')"
  then have a: "a = length h" and h': "h' = h @ [h ! items c]"
    by (simp_all add: Collection_getAll_def)
  show "a \<noteq> items c" using assms(1) by (simp add: a)
  show "h' ! a = h ! items c" by (simp add: a h')
  show "h' ! items c = h ! items c" using assms(1) by (simp add: h' nth_append)
  show "\<forall>ys. (h'[a := ys]) ! items c = h ! items c"
    using assms(1) by (simp add: a h' nth_append)
qed

theorem Collection_frame_witness:
  "Collection_map tally \<lparr>items = 0\<rparr> [[1, 2, 3], []]
     = (\<lparr>items = 2\<rparr>, [[1, 2, 3], [1, 2, 3], [2, 4, 6]])
   \<and> [[1, 2, 3 :: int], [1, 2, 3], [2, 4, 6]] ! 0 = [[1, 2, 3], []] ! 0
   \<and> Collection_filter (pure_callback (\<lambda>n. 1 < n)) \<lparr>items = 0\<rparr> [[1, 2, 3 :: int], []]
     = (\<lparr>items = 2\<rparr>, [[1, 2, 3], [], [2, 3]])
   \<and> Collection_getAll \<lparr>items = 0\<rparr> [[1, 2, 3 :: int], []] = (2, [[1, 2, 3], [], [1, 2, 3]])
   \<and> ([[1, 2, 3 :: int], [], [1, 2, 3]][2 := [9]]) ! 0 = [[1, 2, 3], []] ! 0"
proof -
  let ?c = "\<lparr>items = 0\<rparr>" and ?h = "[[1, 2, 3 :: int], []]"
  have live: "items ?c < length ?h" by simp
  have fn: "items ?c < length (snd (tally item h')) \<and> snd (tally item h') ! items ?c = h' ! items ?c"
    if "items ?c < length h'" for item h'
    using that by (simp add: tally_def)
  have predicate: "items ?c < length (snd (pure_callback (\<lambda>n::int. 1 < n) item h'))
      \<and> snd (pure_callback (\<lambda>n::int. 1 < n) item h') ! items ?c = h' ! items ?c"
    if "items ?c < length h'" for item and h' :: "int store"
    using that by (simp add: pure_callback_def)
  have m: "Collection_map tally ?c ?h = (\<lparr>items = 2\<rparr>, [[1, 2, 3], [1, 2, 3], [2, 4, 6]])"
    by (simp add: Collection_map_def Collection_new_def Collection_add_def forEach_def tally_def
        upt_rec [of 0] upt_rec [of 1] upt_rec [of 2] upt_rec [of 3])
  have g: "Collection_getAll ?c ?h = (2, [[1, 2, 3], [], [1, 2, 3]])"
    by (simp add: Collection_getAll_def)
  note frame = Collection_frame [of ?c ?h tally "pure_callback (\<lambda>n. 1 < n)", OF live fn predicate]
  have kept: "[[1, 2, 3 :: int], [1, 2, 3], [2, 4, 6]] ! 0 = ?h ! 0"
    using frame [of "\<lparr>items = 2\<rparr>" "[[1, 2, 3], [1, 2, 3], [2, 4, 6]]"] m by simp
  have f: "Collection_filter (pure_callback (\<lambda>n. 1 < n)) ?c ?h
             = (\<lparr>items = 2\<rparr>, [[1, 2, 3], [], [2, 3]])"
    using frame [of _ _ _ "\<lambda>n. 1 < n"] by simp
  have copy: "([[1, 2, 3 :: int], [], [1, 2, 3]][2 := [9]]) ! 0 = ?h ! 0"
    using frame [of _ "[[1, 2, 3], [], [1, 2, 3]]" _ _ 2] g by simp
  from m kept f g copy show ?thesis by blast
qed

text \<open>
  Against C10 as it is written (\<open>map\<close> leaves the items of the receiver unchanged, whatever
  the callback): \<open>c.map(n => { c.add(n); return n })\<close> on a collection \<open>c\<close> of 1, 2, 3
  returns a collection of 1, 2, 3 and leaves \<open>c\<close> with 1, 2, 3, 1, 2, 3.
\<close>

theorem Collection_map_counterexample:
  "Collection_map (adding \<lparr>items = 0\<rparr>) \<lparr>items = 0\<rparr> [[1, 2, 3 :: int]]
     = (\<lparr>items = 1\<rparr>, [[1, 2, 3, 1, 2, 3], [1, 2, 3]])"
  by (simp add: Collection_map_def Collection_new_def Collection_add_def forEach_def adding_def
      upt_rec [of 0] upt_rec [of 1] upt_rec [of 2] upt_rec [of 3])

subsection \<open>Retry with backoff\<close>














text \<open>Further runs: the other two callbacks, the default options, and \<open>maxRetries = NaN\<close>.\<close>

lemma withRetry_examples:
  "withRetry exact_runtime forbidden snd idle 1 (0, fetch_options)
     = Some (Inl forbidden_error, (1, fetch_options), [Invoked (Inl forbidden_error)])"
  "withRetry exact_runtime unavailable snd idle 4 (0, fetch_options)
     = Some (Inl unavailable_error, (3, fetch_options),
        [Invoked (Inl unavailable_error), Logged (Fin 500) 1 (Fin 3), Waited (Fin 500),
         Invoked (Inl unavailable_error), Logged (Fin 750) 2 (Fin 3), Waited (Fin 750),
         Invoked (Inl unavailable_error), Logged (Fin 1125) 3 (Fin 3), Waited (Fin 1125)])"
  "withRetry exact_runtime flaky snd idle 3 (0, default_RetryOptions)
     = Some (Inr ''John Doe'', (3, default_RetryOptions),
        [Invoked (Inl unavailable_error), Logged (Fin 300) 1 (Fin 3), Waited (Fin 300),
         Invoked (Inl unavailable_error), Logged (Fin 600) 2 (Fin 3), Waited (Fin 600),
         Invoked (Inr ''John Doe'')])"
  "withRetry exact_runtime unavailable snd idle 1 (0, fetch_options\<lparr>maxRetries := NaN\<rparr>)
     = Some (Inl (Thrown JUndefined), (0, fetch_options\<lparr>maxRetries := NaN\<rparr>), [])"
  by (simp_all add: withRetry_def numeral_eq_Suc forbidden_def unavailable_def flaky_def idle_def
      unavailable_error_def forbidden_error_def js_ge_def fetch_options_def
      default_RetryOptions_def exact_runtime_def Let_def)

text \<open>
  The loop reads \<open>options.maxRetries\<close> at every test: a callback that lowers it to 1 is not
  invoked again, and the line logged after its failure already prints the new value.
\<close>

lemma withRetry_rereads_options:
  "withRetry exact_runtime lowering snd idle 2 (0, fetch_options)
     = Some (Inl unavailable_error, (1, fetch_options\<lparr>maxRetries := Fin 1\<rparr>),
        [Invoked (Inl unavailable_error), Logged (Fin 500) 1 (Fin 1), Waited (Fin 500)])"
  by (simp add: withRetry_def numeral_eq_Suc lowering_def idle_def unavailable_error_def
      js_ge_def fetch_options_def exact_runtime_def Let_def)

text \<open>
  With \<open>maxRetries = Infinity\<close> and a callback that always fails with a retryable error
  the loop never returns: no fuel is enough.
\<close>

lemma loop_unbounded:
  "withRetry_loop rt unavailable snd idle fuel attempt lastError (n, unbounded_options) = None"
proof (induction fuel arbitrary: attempt lastError n)
  case 0
  show ?case by simp
next
  case (Suc fuel)
  then show ?case
    by (simp add: unavailable_def idle_def unavailable_error_def js_ge_def
        unbounded_options_def Let_def)
qed

lemma withRetry_unbounded:
  "withRetry rt unavailable snd idle fuel (0, unbounded_options) = None"
  by (simp add: withRetry_def loop_unbounded)

text \<open>The timers of a run grow by the backoff factor.\<close>

lemma withRetry_waits:
  assumes "withRetry_loop rt fn options wait fuel attempt lastError s = Some run"
    and "\<And>s. options (snd (fn s)) = options s"
    and "\<And>d s. options (wait d s) = options s"
    and "options s = opts"
    and "i < length (waits (snd (snd run)))"
  shows "waits (snd (snd run)) ! i
           = js_mul rt (delay opts) (js_pow rt (backoffFactor opts) (attempt + i))"
  using assms(1,4,5)
proof (induction fuel arbitrary: attempt lastError s run i)
  case 0
  then show ?case by simp
next
  case (Suc fuel)
  note opts = \<open>options s = opts\<close>
  obtain out s' where fn: "fn s = (out, s')" by (cases "fn s")
  have opts': "options s' = opts" using assms(2) [of s] fn opts by simp
  let ?d = "js_mul rt (delay opts) (js_pow rt (backoffFactor opts) attempt)"
  from Suc.prems(1,3) fn opts opts'
  obtain e r s'' events where
    rest: "withRetry_loop rt fn options wait fuel (Suc attempt) e (wait ?d s')
                 = Some (r, s'', events)"
    and run: "run = (r, s'', Invoked (Inl e) # Logged ?d (attempt + 1) (maxRetries opts)
                     # Waited ?d # events)"
    by (auto simp: Let_def split: if_splits sum.splits option.splits)
  have opts'': "options (wait ?d s') = opts" using assms(3) opts' by simp
  show ?case
  proof (cases i)
    case 0
    with run show ?thesis by simp
  next
    case (Suc j)
    with Suc.prems(3) run have "j < length (waits (snd (snd (r, s'', events))))" by simp
    from Suc.IH [OF rest opts'' this] Suc run show ?thesis by simp
  qed
qed

subsection \<open>Calls between snippets\<close>

text \<open>
  C4, as the code has it: some snippets do compute their result by calling another
  function of the repository.

  \<^item> \<open>performDivision(a, b)\<close> calls the function bound to \<open>divide\<close> on \<open>a\<close> and \<open>b\<close> and goes
    by what it returns: for a success it returns its value and writes nothing; for a
    failure with an instance of \<open>Error\<close> it writes one line, the message of the error, to
    the console and returns \<open>null\<close>. With the repository's \<open>divide\<close> it returns \<open>a / b\<close> and
    writes nothing when \<open>b\<close> is not 0, and returns \<open>null\<close> after writing
    \<open>Division by zero\<close> when \<open>b\<close> is 0.
  \<^item> \<open>saveUser(user)\<close> calls the function bound to \<open>validateUser\<close> on \<open>user\<close> and goes by
    what it does: if it returns, nothing is written; if it throws a \<open>ValidationError\<close>, a
    \<open>DatabaseError\<close> or anything else, one line is written to the console:
    \<open>Validation failed:\<close> and the message, \<open>Database error <code>:\<close> and the message, or
    \<open>Unknown error:\<close> and what was thrown. With the repository's \<open>validateUser\<close> nothing is
    written for an object, and \<open>Validation failed:\<close>, \<open>User must be an object\<close> for any
    other value.

  In each case the world is left as the called function left it, but for the line
  written.
\<close>

theorem snippets_call_snippets:
  "(divide_fn a b w = (Success v, w') \<longrightarrow> performDivision divide_fn a b w = (JNum v, w'))
   \<and> (divide_fn a b w = (Failure e, w') \<and> is_Error e \<longrightarrow>
        performDivision divide_fn a b w
          = (JNull, w'\<lparr>console := console w' @ [[Val (error_message e)]]\<rparr>))
   \<and> performDivision repository_divide a b w
        = (if b = 0 then (JNull, w\<lparr>console := console w @ [[Val (JStr ''Division by zero'')]]\<rparr>)
           else (JNum (a / b), w))
   \<and> (validateUser_fn user w = (Inr (), w') \<longrightarrow> saveUser validateUser_fn user w = w')
   \<and> (validateUser_fn user w = (Inl (ValidationError m), w') \<longrightarrow>
        saveUser validateUser_fn user w
          = w'\<lparr>console := console w' @ [[Val (JStr ''Validation failed:''), Val (JStr m)]]\<rparr>)
   \<and> (validateUser_fn user w = (Inl (DatabaseError m c), w') \<longrightarrow>
        saveUser validateUser_fn user w
          = w'\<lparr>console := console w'
                  @ [[Template [Lit ''Database error '', Num c, Lit '':''], Val (JStr m)]]\<rparr>)
   \<and> (validateUser_fn user w = (Inl e, w') \<and> (\<forall>m. e \<noteq> ValidationError m)
        \<and> (\<forall>m c. e \<noteq> DatabaseError m c) \<longrightarrow>
        saveUser validateUser_fn user w
          = w'\<lparr>console := console w' @ [[Val (JStr ''Unknown error:''), Err e]]\<rparr>)
   \<and> saveUser repository_validateUser user w
        = (if \<exists>ps. user = JObj ps then w
           else w\<lparr>console := console w
                    @ [[Val (JStr ''Validation failed:''), Val (JStr ''User must be an object'')]]\<rparr>)"
proof (intro conjI impI)
  show "performDivision divide_fn a b w = (JNum v, w')" if "divide_fn a b w = (Success v, w')"
    using that by (simp add: performDivision_def)
  show "performDivision divide_fn a b w
          = (JNull, w'\<lparr>console := console w' @ [[Val (error_message e)]]\<rparr>)"
    if "divide_fn a b w = (Failure e, w') \<and> is_Error e"
    using that by (simp add: performDivision_def console_error_def)
  show "performDivision repository_divide a b w
        = (if b = 0 then (JNull, w\<lparr>console := console w @ [[Val (JStr ''Division by zero'')]]\<rparr>)
           else (JNum (a / b), w))"
    by (simp add: performDivision_def repository_divide_def divide_result_def console_error_def)
  show "saveUser validateUser_fn user w = w'" if "validateUser_fn user w = (Inr (), w')"
    using that by (simp add: saveUser_def)
  show "saveUser validateUser_fn user w
          = w'\<lparr>console := console w' @ [[Val (JStr ''Validation failed:''), Val (JStr m)]]\<rparr>"
    if "validateUser_fn user w = (Inl (ValidationError m), w')"
    using that by (simp add: saveUser_def console_error_def)
  show "saveUser validateUser_fn user w
          = w'\<lparr>console := console w'
                  @ [[Template [Lit ''Database error '', Num c, Lit '':''], Val (JStr m)]]\<rparr>"
    if "validateUser_fn user w = (Inl (DatabaseError m c), w')"
    using that by (simp add: saveUser_def console_error_def)
  show "saveUser validateUser_fn user w
          = w'\<lparr>console := console w' @ [[Val (JStr ''Unknown error:''), Err e]]\<rparr>"
    if "validateUser_fn user w = (Inl e, w') \<and> (\<forall>m. e \<noteq> ValidationError m)
        \<and> (\<forall>m c. e \<noteq> DatabaseError m c)"
    using that by (cases e) (simp_all add: saveUser_def console_error_def)
  show "saveUser repository_validateUser user w
        = (if \<exists>ps. user = JObj ps then w
           else w\<lparr>console := console w
                    @ [[Val (JStr ''Validation failed:''), Val (JStr ''User must be an object'')]]\<rparr>)"
    by (cases user)
      (simp_all add: saveUser_def repository_validateUser_def validateUser_def console_error_def)
qed

theorem snippets_call_snippets_witness:
  "counted_divide 1 0 \<lparr>console = [], rest = 0\<rparr>
     = (Failure (Error ''Division by zero''), \<lparr>console = [], rest = 1\<rparr>)
   \<and> is_Error (Error ''Division by zero'')
   \<and> performDivision counted_divide 1 0 \<lparr>console = [], rest = 0\<rparr>
     = (JNull, \<lparr>console = [[Val (JStr ''Division by zero'')]], rest = 1\<rparr>)
   \<and> counted_validateUser (JObj []) \<lparr>console = [], rest = 0\<rparr>
     = (Inr (), \<lparr>console = [], rest = 1\<rparr>)
   \<and> saveUser counted_validateUser (JObj []) \<lparr>console = [], rest = 0\<rparr>
     = \<lparr>console = [], rest = 1\<rparr>
   \<and> counted_validateUser (JStr ''ann'') \<lparr>console = [], rest = 0\<rparr>
     = (Inl (ValidationError ''User must be an object''), \<lparr>console = [], rest = 1\<rparr>)
   \<and> saveUser counted_validateUser (JStr ''ann'') \<lparr>console = [], rest = 0\<rparr>
     = \<lparr>console = [[Val (JStr ''Validation failed:''), Val (JStr ''User must be an object'')]],
        rest = 1\<rparr>
   \<and> throwing (DatabaseError ''Connection lost'' (Fin 1042)) JNull \<lparr>console = [], rest = 0\<rparr>
     = (Inl (DatabaseError ''Connection lost'' (Fin 1042)), \<lparr>console = [], rest = 1\<rparr>)
   \<and> saveUser (throwing (DatabaseError ''Connection lost'' (Fin 1042))) JNull
        \<lparr>console = [], rest = 0\<rparr>
     = \<lparr>console = [[Template [Lit ''Database error '', Num (Fin 1042), Lit '':''],
                     Val (JStr ''Connection lost'')]],
        rest = 1\<rparr>
   \<and> throwing (Thrown (JStr ''stop'')) JNull \<lparr>console = [], rest = 0\<rparr>
     = (Inl (Thrown (JStr ''stop'')), \<lparr>console = [], rest = 1\<rparr>)
   \<and> saveUser (throwing (Thrown (JStr ''stop''))) JNull \<lparr>console = [], rest = 0\<rparr>
     = \<lparr>console = [[Val (JStr ''Unknown error:''), Err (Thrown (JStr ''stop''))]], rest = 1\<rparr>"
proof -
  let ?w = "\<lparr>console = [], rest = 0 :: nat\<rparr>" and ?w' = "\<lparr>console = [], rest = 1 :: nat\<rparr>"
  have d: "counted_divide 1 0 ?w = (Failure (Error ''Division by zero''), ?w')"
    by (simp add: counted_divide_def divide_result_def)
  have e: "is_Error (Error ''Division by zero'')" by simp
  from d e snippets_call_snippets [where divide_fn = counted_divide and a = 1 and b = 0
      and w = ?w and w' = ?w' and e = "Error ''Division by zero''"]
  have p: "performDivision counted_divide 1 0 ?w
     = (JNull, \<lparr>console = [[Val (JStr ''Division by zero'')]], rest = 1\<rparr>)"
    by simp
  have v1: "counted_validateUser (JObj []) ?w = (Inr (), ?w')"
    by (simp add: counted_validateUser_def validateUser_def)
  from v1 snippets_call_snippets [where validateUser_fn = counted_validateUser
      and user = "JObj []" and w = ?w and w' = ?w']
  have s1: "saveUser counted_validateUser (JObj []) ?w = ?w'"
    by blast
  have v2: "counted_validateUser (JStr ''ann'') ?w
     = (Inl (ValidationError ''User must be an object''), ?w')"
    by (simp add: counted_validateUser_def validateUser_def)
  from v2 snippets_call_snippets [where validateUser_fn = counted_validateUser
      and user = "JStr ''ann''" and w = ?w and w' = ?w' and m = "''User must be an object''"]
  have s2: "saveUser counted_validateUser (JStr ''ann'') ?w
     = \<lparr>console = [[Val (JStr ''Validation failed:''), Val (JStr ''User must be an object'')]],
        rest = 1\<rparr>"
    by simp
  have v3: "throwing (DatabaseError ''Connection lost'' (Fin 1042)) JNull ?w
     = (Inl (DatabaseError ''Connection lost'' (Fin 1042)), ?w')"
    by (simp add: throwing_def)
  from v3 snippets_call_snippets [where validateUser_fn
        = "throwing (DatabaseError ''Connection lost'' (Fin 1042))"
      and user = JNull and w = ?w and w' = ?w' and m = "''Connection lost''" and c = "Fin 1042"]
  have s3: "saveUser (throwing (DatabaseError ''Connection lost'' (Fin 1042))) JNull ?w
     = \<lparr>console = [[Template [Lit ''Database error '', Num (Fin 1042), Lit '':''],
                     Val (JStr ''Connection lost'')]],
        rest = 1\<rparr>"
    by simp
  have v4: "throwing (Thrown (JStr ''stop'')) JNull ?w = (Inl (Thrown (JStr ''stop'')), ?w')"
    by (simp add: throwing_def)
  from v4 snippets_call_snippets [where validateUser_fn = "throwing (Thrown (JStr ''stop''))"
      and user = JNull and w = ?w and w' = ?w' and e = "Thrown (JStr ''stop'')"]
  have s4: "saveUser (throwing (Thrown (JStr ''stop''))) JNull ?w
     = \<lparr>console = [[Val (JStr ''Unknown error:''), Err (Thrown (JStr ''stop''))]], rest = 1\<rparr>"
    by simp
  from d e p v1 s1 v2 s2 v3 s3 v4 s4 show ?thesis by blast
qed

text \<open>
  Against C4 as it is written (no function computes its result by calling another function
  of the repository): \<open>performDivision(10, 2)\<close> returns 5, the value that \<open>divide\<close> returns,
  and a \<open>divide\<close> that counts its invocations has counted one when \<open>performDivision\<close> returns.
\<close>

theorem no_calls_counterexample:
  "performDivision repository_divide 10 2 \<lparr>console = [], rest = ()\<rparr>
     = (JNum 5, \<lparr>console = [], rest = ()\<rparr>)
   \<and> divide_result 10 2 = Success 5
   \<and> performDivision counted_divide 10 2 \<lparr>console = [], rest = 0\<rparr>
     = (JNum 5, \<lparr>console = [], rest = 1\<rparr>)"
  by (simp add: performDivision_def repository_divide_def counted_divide_def divide_result_def)

end
